theory Spec2Isabelle
  imports Complex_Main
begin

section \<open>Python values and exceptions\<close>

text \<open>
  The exceptions that the modelled code raises or lets through. The string is the
  exception's message (for \<open>KeyError\<close> the missing key, for \<open>Timeout\<close> the lock file).
  \<open>OtherError\<close> stands for any exception of the protected operation or of a backend.
\<close>

datatype exn =
    KeyError string
  | TypeError string
  | ValueError string
  | ModuleNotFoundError string
  | RuntimeError string
  | Timeout string
  | OtherError string

text \<open>
  The Python values that flow through the code. A class is identified by its qualified
  name and carries two lists: the qualified names of the classes it is a subclass of
  (the classes it inherits from, and the abstract base classes that it or a class it
  inherits from has been registered with by \<open>register\<close>), and the names of its abstract
  methods that are still unimplemented (\<open>__abstractmethods__\<close>). \<open>PyOther\<close>
  is any object that is not a class and not one of the scalars: a function, an imported
  module, a logger. Python's \<open>int\<close> is unbounded (\<open>int\<close>); a \<open>float\<close> is read as the real
  number it denotes, since the code only compares it.
\<close>

datatype pyval =
    PyNone
  | PyBool bool
  | PyInt int
  | PyFloat real
  | PyStr string
  | PyClass string "string list" "string list"
  | PyOther string

fun is_class :: "pyval \<Rightarrow> bool" where
  "is_class (PyClass _ _ _) = True"
| "is_class _ = False"



text \<open>
  \<open>issubclass(val, cls)\<close>: a class is a subclass of itself, of each class it inherits
  from and, \<open>cls\<close> being an abstract base class, of \<open>cls\<close> when it or a class it
  inherits from is registered with \<open>cls\<close>: of itself and of the classes its first list
  names. A first argument that is not a class raises \<open>TypeError\<close>.
\<close>

fun issubclass :: "pyval \<Rightarrow> pyval \<Rightarrow> exn + bool" where
  "issubclass (PyClass c supers _) (PyClass a _ _) = Inr (a \<in> set (c # supers))"
| "issubclass (PyClass c supers _) _ = Inl (TypeError ''issubclass() arg 2 must be a class'')"
| "issubclass _ _ = Inl (TypeError ''issubclass() arg 1 must be a class'')"

section \<open>The backend registry (\<open>backends/__init__.py\<close>)\<close>

definition AbstractBaseLock :: pyval where
  "AbstractBaseLock =
     PyClass ''locked_migrations.backends.AbstractBaseLock'' [''abc.ABC'', ''builtins.object'']
       [''__enter__'', ''__exit__'', ''acquire'', ''locked'', ''release'']"

text \<open>
  The loop of \<open>get_backend\<close> over \<open>module.__dict__.values()\<close>, in the namespace's order:
  a \<open>TypeError\<close> of the subclass test is caught and the loop continues; the first value
  that is a subclass of \<open>AbstractBaseLock\<close> and is not \<open>AbstractBaseLock\<close> is returned;
  when the values are exhausted, \<open>ValueError\<close> is raised.
\<close>

fun scan_members :: "string \<Rightarrow> pyval list \<Rightarrow> exn + pyval" where
  "scan_members name [] = Inl (ValueError (''No backend found for '' @ name))"
| "scan_members name (val # vals) =
     (case issubclass val AbstractBaseLock of
        Inl (TypeError _) \<Rightarrow> scan_members name vals
      | Inl e \<Rightarrow> Inl e
      | Inr is_subclass \<Rightarrow>
          if is_subclass \<and> val \<noteq> AbstractBaseLock then Inr val
          else scan_members name vals)"

text \<open>
  \<open>importlib.import_module\<close> is the interpreter's: it is a parameter, a function from
  the dotted module name to the module's namespace (its \<open>__dict__\<close>, an ordered list of
  names and values) or to the exception the import raises.
\<close>

type_synonym importer = "string \<Rightarrow> exn + (string \<times> pyval) list"

definition get_backend :: "importer \<Rightarrow> string \<Rightarrow> exn + pyval" where
  "get_backend import_module name =
     (case import_module (''locked_migrations.backends.'' @ name) of
        Inl e \<Rightarrow> Inl e
      | Inr namespace \<Rightarrow> scan_members name (map snd namespace))"

text \<open>A value qualifies when the loop's test accepts it.\<close>

definition qualifies :: "pyval \<Rightarrow> bool" where
  "qualifies val \<longleftrightarrow> issubclass val AbstractBaseLock = Inr True \<and> val \<noteq> AbstractBaseLock"

section \<open>The guarded-operation wrapper (\<open>management/commands/migrate.py\<close>)\<close>

text \<open>
  \<open>Command.handle\<close> is duck-typed: it calls the popped \<open>lock_backend\<close> value, then
  \<open>acquire(timeout=...)\<close> and \<open>release()\<close> on what the call returned. These three
  operations are the parameter \<open>api\<close>; each takes the world (everything outside the
  wrapper: the lock medium, the datastore, the clock) and returns the new world with
  the value returned or the exception raised. \<open>None\<close> is a call that never returns
  (an unbounded wait, a protected operation that runs forever).
\<close>

type_synonym ('a, 'w) comp = "'w \<Rightarrow> ((exn + 'a) \<times> 'w) option"

record ('o, 'w) lock_api =
  new_lock :: "pyval \<Rightarrow> ('o, 'w) comp"
  acquire :: "'o \<Rightarrow> pyval \<Rightarrow> (pyval, 'w) comp"
  release :: "'o \<Rightarrow> (pyval, 'w) comp"

text \<open>The calls \<open>handle\<close> and its callers make, in the order they are made.\<close>

datatype call =
    CallLock
  | CallAcquire pyval
  | CallBaseHandle
  | CallRelease

type_synonym kwargs = "string \<rightharpoonup> pyval"

text \<open>\<open>dict.pop(key)\<close> with no default: \<open>KeyError\<close> when the key is missing.\<close>

definition pop :: "kwargs \<Rightarrow> string \<Rightarrow> exn + pyval \<times> kwargs" where
  "pop d k = (case d k of None \<Rightarrow> Inl (KeyError k) | Some v \<Rightarrow> Inr (v, d(k := None)))"

text \<open>
  \<open>Command.handle\<close>. \<open>base_handle\<close> is \<open>super().handle\<close>, the protected operation. The
  value \<open>acquire\<close> returns is dropped. The \<open>try ... finally\<close> runs \<open>release\<close> after the
  protected operation has returned or raised; an exception of \<open>release\<close> replaces the
  protected operation's outcome. The result is the outcome, the final world and the
  calls made.
\<close>

definition handle ::
  "('o, 'w) lock_api \<Rightarrow> (pyval list \<Rightarrow> kwargs \<Rightarrow> (pyval, 'w) comp) \<Rightarrow>
     pyval list \<Rightarrow> kwargs \<Rightarrow> 'w \<Rightarrow> ((exn + pyval) \<times> 'w \<times> call list) option" where
  "handle api base_handle args options w =
     (case pop options ''lock_backend'' of
        Inl e \<Rightarrow> Some (Inl e, w, [])
      | Inr (Lock, options1) \<Rightarrow>
     (case pop options1 ''lock_timeout'' of
        Inl e \<Rightarrow> Some (Inl e, w, [])
      | Inr (timeout, options2) \<Rightarrow>
     (case new_lock api Lock w of
        None \<Rightarrow> None
      | Some (Inl e, w1) \<Rightarrow> Some (Inl e, w1, [CallLock])
      | Some (Inr lock, w1) \<Rightarrow>
     (case acquire api lock timeout w1 of
        None \<Rightarrow> None
      | Some (Inl e, w2) \<Rightarrow> Some (Inl e, w2, [CallLock, CallAcquire timeout])
      | Some (Inr _, w2) \<Rightarrow>
     (case base_handle args options2 w2 of
        None \<Rightarrow> None
      | Some (r, w3) \<Rightarrow>
     (case release api lock w3 of
        None \<Rightarrow> None
      | Some (Inl e, w4) \<Rightarrow>
          Some (Inl e, w4, [CallLock, CallAcquire timeout, CallBaseHandle, CallRelease])
      | Some (Inr _, w4) \<Rightarrow>
          Some (r, w4, [CallLock, CallAcquire timeout, CallBaseHandle, CallRelease])))))))"

subsection \<open>Argument wiring\<close>

text \<open>
  \<open>Command.add_arguments\<close>: after the base class has added its arguments (\<open>super_add\<close>),
  the default of \<open>--lock-backend\<close> is computed by \<open>get_backend('file')\<close> while the
  argument is being declared, and the default of \<open>--lock-timeout\<close> is 60. The parser is
  reduced to the defaults it holds.
\<close>

definition add_arguments :: "importer \<Rightarrow> (kwargs \<Rightarrow> exn + kwargs) \<Rightarrow> kwargs \<Rightarrow> exn + kwargs" where
  "add_arguments import_module super_add parser =
     (case super_add parser of
        Inl e \<Rightarrow> Inl e
      | Inr parser1 \<Rightarrow>
     (case get_backend import_module ''file'' of
        Inl e \<Rightarrow> Inl e
      | Inr default_backend \<Rightarrow>
          Inr (parser1(''lock_backend'' \<mapsto> default_backend, ''lock_timeout'' \<mapsto> PyInt 60))))"

text \<open>
  \<open>GetBackend.__call__\<close>: the option has \<open>type=str\<close>, so \<open>values\<close> is a string and
  \<open>str(values)\<close> is that string.
\<close>

definition GetBackend_call :: "importer \<Rightarrow> kwargs \<Rightarrow> string \<Rightarrow> string \<Rightarrow> exn + kwargs" where
  "GetBackend_call import_module namespace dest values =
     (case get_backend import_module values of
        Inl e \<Rightarrow> Inl e
      | Inr backend \<Rightarrow> Inr (namespace(dest \<mapsto> backend)))"

text \<open>
  The command line as far as the two options go: the value given to \<open>--lock-backend\<close>
  and the integer given to \<open>--lock-timeout\<close>, each if present.
\<close>

record cli =
  cli_lock_backend :: "string option"
  cli_lock_timeout :: "int option"

text \<open>
  The framework's calling protocol, which is Django's and argparse's and not this
  repository's: the parser is built (\<open>add_arguments\<close>), the command line is parsed (the
  namespace starts from the defaults, and the action of each option that is present
  runs), and \<open>handle\<close> is called with the namespace as its options.
\<close>

definition run_command ::
  "importer \<Rightarrow> ('o, 'w) lock_api \<Rightarrow> (pyval list \<Rightarrow> kwargs \<Rightarrow> (pyval, 'w) comp) \<Rightarrow>
     (kwargs \<Rightarrow> exn + kwargs) \<Rightarrow> cli \<Rightarrow> pyval list \<Rightarrow> 'w \<Rightarrow>
     ((exn + pyval) \<times> 'w \<times> call list) option" where
  "run_command import_module api base_handle super_add argv args w =
     (case add_arguments import_module super_add Map.empty of
        Inl e \<Rightarrow> Some (Inl e, w, [])
      | Inr defaults \<Rightarrow>
     (case (case cli_lock_backend argv of
              None \<Rightarrow> Inr defaults
            | Some values \<Rightarrow> GetBackend_call import_module defaults ''lock_backend'' values) of
        Inl e \<Rightarrow> Some (Inl e, w, [])
      | Inr namespace1 \<Rightarrow>
          (let namespace =
             (case cli_lock_timeout argv of
                None \<Rightarrow> namespace1
              | Some t \<Rightarrow> namespace1(''lock_timeout'' \<mapsto> PyInt t))
           in handle api base_handle args namespace w)))"

section \<open>The file backend (\<open>backends/file.py\<close>)\<close>

subsection \<open>The wrapped lock of the \<open>filelock\<close> package\<close>

text \<open>
  \<open>FileLock\<close> contains a \<open>filelock.FileLock\<close> and delegates to it. That class belongs to
  the third-party package \<open>filelock\<close>, not to this repository; it is modelled after the
  package's \<open>BaseFileLock\<close>: \<open>acquire\<close> counts the acquisition, polls the operating
  system's lock until it is granted, raises \<open>Timeout\<close> when it is not granted and the
  call is non-blocking or the timeout has elapsed, and returns a proxy whose \<open>lock\<close>
  is the lock itself; \<open>release\<close> does nothing on a lock that is not held.

  The state of one lock object: its file, the defaults given at construction, the
  counter of nested acquisitions, and whether the operating system's lock is held by
  this object (\<open>is_locked\<close>: its file descriptor is set).
\<close>

record base_file_lock =
  lock_file :: string
  ctx_timeout :: real
  ctx_blocking :: bool
  lock_counter :: int
  is_locked :: bool

definition BaseFileLock_init :: "string \<Rightarrow> bool \<Rightarrow> base_file_lock" where
  "BaseFileLock_init lockfile blocking =
     \<lparr>lock_file = lockfile, ctx_timeout = - 1, ctx_blocking = blocking,
      lock_counter = 0, is_locked = False\<rparr>"

text \<open>
  What the environment does while a call waits, one entry for each round of the polling
  loop: whether the operating system grants the lock at that attempt (it does not
  while another party holds it), and the time elapsed since the call started, as read
  in that round.
\<close>

type_synonym schedule = "(bool \<times> real) list"

fun as_number :: "pyval \<Rightarrow> real option" where
  "as_number (PyBool b) = Some (if b then 1 else 0)"
| "as_number (PyInt i) = Some (real_of_int i)"
| "as_number (PyFloat r) = Some r"
| "as_number _ = None"

text \<open>\<open>0 <= timeout < elapsed\<close>; comparing a value that is not a number raises.\<close>

definition timed_out :: "pyval \<Rightarrow> real \<Rightarrow> exn + bool" where
  "timed_out timeout elapsed =
     (case as_number timeout of
        None \<Rightarrow> Inl (TypeError ''comparison with int not supported'')
      | Some t \<Rightarrow> Inr (0 \<le> t \<and> t < elapsed))"

text \<open>
  The polling loop. \<open>None\<close>: the schedule has ended and the call is still waiting. The
  schedule that is left is returned with the lock.
\<close>

fun wait_for_lock ::
  "bool \<Rightarrow> pyval \<Rightarrow> schedule \<Rightarrow> base_file_lock \<Rightarrow>
     ((exn + unit) \<times> base_file_lock \<times> schedule) option" where
  "wait_for_lock blocking timeout [] L =
     (if is_locked L then Some (Inr (), L, []) else None)"
| "wait_for_lock blocking timeout ((granted, elapsed) # obs) L =
     (if is_locked L then Some (Inr (), L, (granted, elapsed) # obs)
      else if granted then Some (Inr (), L\<lparr>is_locked := True\<rparr>, obs)
      else if \<not> blocking then Some (Inl (Timeout (lock_file L)), L, obs)
      else (case timed_out timeout elapsed of
              Inl e \<Rightarrow> Some (Inl e, L, obs)
            | Inr True \<Rightarrow> Some (Inl (Timeout (lock_file L)), L, obs)
            | Inr False \<Rightarrow> wait_for_lock blocking timeout obs L))"

text \<open>
  \<open>BaseFileLock.acquire(timeout, blocking)\<close>: \<open>None\<close> for either argument takes the
  default given at construction; the counter is incremented first and decremented
  (not below 0) when the loop raises. The proxy returned is represented by \<open>()\<close>: its
  \<open>lock\<close> is the lock whose new state is returned.
\<close>

definition BaseFileLock_acquire ::
  "pyval \<Rightarrow> bool option \<Rightarrow> schedule \<Rightarrow> base_file_lock \<Rightarrow>
     ((exn + unit) \<times> base_file_lock \<times> schedule) option" where
  "BaseFileLock_acquire timeout blocking obs L =
     (let timeout1 = (if timeout = PyNone then PyFloat (ctx_timeout L) else timeout);
          blocking1 = (case blocking of None \<Rightarrow> ctx_blocking L | Some b \<Rightarrow> b);
          L1 = L\<lparr>lock_counter := lock_counter L + 1\<rparr>
      in case wait_for_lock blocking1 timeout1 obs L1 of
           None \<Rightarrow> None
         | Some (Inl e, L2, obs') \<Rightarrow>
             Some (Inl e, L2\<lparr>lock_counter := max 0 (lock_counter L2 - 1)\<rparr>, obs')
         | Some (Inr u, L2, obs') \<Rightarrow> Some (Inr u, L2, obs'))"

text \<open>
  \<open>BaseFileLock.release()\<close>: on a held lock the counter is decremented and, at 0, the
  operating system's lock is given up; on a lock that is not held nothing happens.
\<close>

definition BaseFileLock_release :: "base_file_lock \<Rightarrow> base_file_lock" where
  "BaseFileLock_release L =
     (if is_locked L then
        (let L1 = L\<lparr>lock_counter := lock_counter L - 1\<rparr>
         in if lock_counter L1 = 0 then L1\<lparr>is_locked := False, lock_counter := 0\<rparr> else L1)
      else L)"

subsection \<open>\<open>FileLock\<close>\<close>

text \<open>
  \<open>FileLock.__init__\<close>: the lock file is the setting \<open>LOCKED_MIGRATIONS_LOCKFILE\<close>, or
  \<open>migrations.lock\<close> when the setting is missing; the wrapped lock is built with
  \<open>blocking=True\<close>.
\<close>

definition FileLock_init :: "(string \<rightharpoonup> string) \<Rightarrow> base_file_lock" where
  "FileLock_init settings =
     (let lockfile =
        (case settings ''LOCKED_MIGRATIONS_LOCKFILE'' of
           None \<Rightarrow> ''migrations.lock''
         | Some f \<Rightarrow> f)
      in BaseFileLock_init lockfile True)"

text \<open>
  \<open>FileLock.acquire\<close>: the wrapped \<open>acquire\<close> with both arguments passed on; an
  exception propagates; otherwise the result is \<open>is_locked\<close> of the proxy's lock.
\<close>

definition FileLock_acquire ::
  "bool \<Rightarrow> pyval \<Rightarrow> schedule \<Rightarrow> base_file_lock \<Rightarrow>
     ((exn + bool) \<times> base_file_lock \<times> schedule) option" where
  "FileLock_acquire blocking timeout obs L =
     (case BaseFileLock_acquire timeout (Some blocking) obs L of
        None \<Rightarrow> None
      | Some (Inl e, L', obs') \<Rightarrow> Some (Inl e, L', obs')
      | Some (Inr _, L', obs') \<Rightarrow> Some (Inr (is_locked L'), L', obs'))"

definition FileLock_release :: "base_file_lock \<Rightarrow> (exn + unit) \<times> base_file_lock" where
  "FileLock_release L = (Inr (), BaseFileLock_release L)"

definition FileLock_locked :: "base_file_lock \<Rightarrow> bool" where
  "FileLock_locked L = is_locked L"

text \<open>\<open>FileLock.__enter__\<close>: the wrapped \<open>acquire\<close> called with no argument.\<close>

definition FileLock_enter ::
  "schedule \<Rightarrow> base_file_lock \<Rightarrow> ((exn + bool) \<times> base_file_lock \<times> schedule) option" where
  "FileLock_enter obs L =
     (case BaseFileLock_acquire PyNone None obs L of
        None \<Rightarrow> None
      | Some (Inl e, L', obs') \<Rightarrow> Some (Inl e, L', obs')
      | Some (Inr _, L', obs') \<Rightarrow> Some (Inr (is_locked L'), L', obs'))"

text \<open>
  \<open>FileLock.__exit__\<close>: the three arguments describe the exception that is leaving the
  block (\<open>None\<close> when there is none); they are not looked at.
\<close>

definition FileLock_exit ::
  "exn option \<Rightarrow> exn option \<Rightarrow> string option \<Rightarrow> base_file_lock \<Rightarrow> (exn + unit) \<times> base_file_lock" where
  "FileLock_exit exc_type val traceback L = (Inr (), BaseFileLock_release L)"

subsection \<open>The file backend under the wrapper\<close>

definition FileLock_class :: pyval where
  "FileLock_class =
     PyClass ''locked_migrations.backends.file.FileLock''
       [''locked_migrations.backends.AbstractBaseLock'', ''abc.ABC'', ''builtins.object''] []"

text \<open>
  The world of a process that uses the file backend: Django's settings, the lock
  objects built so far (a lock is referred to by its index) and the schedule of the
  environment.
\<close>

record file_world =
  settings :: "string \<rightharpoonup> string"
  locks :: "base_file_lock list"
  clock :: schedule

definition file_api :: "(nat, file_world) lock_api" where
  "file_api =
     \<lparr>new_lock = (\<lambda>c w.
        if c = FileLock_class
        then Some (Inr (length (locks w)), w\<lparr>locks := locks w @ [FileLock_init (settings w)]\<rparr>)
        else Some (Inl (TypeError ''not the file backend''), w)),
      acquire = (\<lambda>ref timeout w.
        if ref < length (locks w) then
          (case FileLock_acquire True timeout (clock w) (locks w ! ref) of
             None \<Rightarrow> None
           | Some (Inl e, L', obs') \<Rightarrow> Some (Inl e, w\<lparr>locks := (locks w)[ref := L'], clock := obs'\<rparr>)
           | Some (Inr b, L', obs') \<Rightarrow>
               Some (Inr (PyBool b), w\<lparr>locks := (locks w)[ref := L'], clock := obs'\<rparr>))
        else Some (Inl (OtherError ''no such lock''), w)),
      release = (\<lambda>ref w.
        if ref < length (locks w) then
          (case FileLock_release (locks w ! ref) of
             (Inl e, L') \<Rightarrow> Some (Inl e, w\<lparr>locks := (locks w)[ref := L']\<rparr>)
           | (Inr _, L') \<Rightarrow> Some (Inr PyNone, w\<lparr>locks := (locks w)[ref := L']\<rparr>))
        else Some (Inl (OtherError ''no such lock''), w))\<rparr>"

text \<open>
  The namespace of the module \<open>locked_migrations.backends.file\<close> after its import, in
  the order of its statements, and an interpreter that has this one backend module.
\<close>

definition file_module :: "(string \<times> pyval) list" where
  "file_module =
     [(''__name__'', PyStr ''locked_migrations.backends.file''),
      (''__doc__'', PyStr ''Define a file-based locking backend.''),
      (''annotations'', PyOther ''__future__.annotations''),
      (''logging'', PyOther ''module logging''),
      (''Any'', PyOther ''typing.Any''),
      (''settings'', PyOther ''django.conf.settings''),
      (''BaseFileLock'', PyClass ''filelock.FileLock''
         [''filelock.BaseFileLock'', ''contextlib.ContextDecorator'', ''builtins.object''] []),
      (''AbstractBaseLock'', AbstractBaseLock),
      (''logger'', PyOther ''logging.Logger''),
      (''FileLock'', FileLock_class)]"

definition repo_import :: importer where
  "repo_import name =
     (if name = ''locked_migrations.backends.file'' then Inr file_module
      else Inl (ModuleNotFoundError name))"

subsection \<open>A backend that follows the interface's docstrings\<close>

text \<open>
  The docstrings of \<open>AbstractBaseLock\<close> describe \<open>threading.Lock\<close>: \<open>acquire\<close> sets an
  unlocked lock to locked and returns \<open>True\<close>; on a locked lock it returns \<open>False\<close> when
  the timeout expires and waits for ever with the timeout \<open>-1\<close>; \<open>release\<close> resets a
  locked lock and raises \<open>RuntimeError\<close> on an unlocked one. The world holds the lock's
  state and counts the runs of the protected operation.
\<close>

record doc_world =
  locked :: bool
  migrations_run :: nat

definition doc_api :: "(unit, doc_world) lock_api" where
  "doc_api =
     \<lparr>new_lock = (\<lambda>c w. Some (Inr (), w)),
      acquire = (\<lambda>lock timeout w.
        if \<not> locked w then Some (Inr (PyBool True), w\<lparr>locked := True\<rparr>)
        else (case as_number timeout of
                None \<Rightarrow> Some (Inl (TypeError ''timeout is not a number''), w)
              | Some t \<Rightarrow> if t < 0 then None else Some (Inr (PyBool False), w))),
      release = (\<lambda>lock w.
        if locked w then Some (Inr PyNone, w\<lparr>locked := False\<rparr>)
        else Some (Inl (RuntimeError ''release unlocked lock''), w))\<rparr>"

definition run_migrations :: "pyval list \<Rightarrow> kwargs \<Rightarrow> (pyval, doc_world) comp" where
  "run_migrations args options w = Some (Inr PyNone, w\<lparr>migrations_run := migrations_run w + 1\<rparr>)"

subsection \<open>Two protected operations\<close>

text \<open>
  A protected operation that raises, and one that returns the \<open>verbosity\<close> option it
  was given unless it sees one of the lock options.
\<close>

definition failing_operation :: "pyval list \<Rightarrow> kwargs \<Rightarrow> (pyval, 'w) comp" where
  "failing_operation args options w = Some (Inl (OtherError ''migration failed''), w)"

definition verbosity_operation :: "pyval list \<Rightarrow> kwargs \<Rightarrow> (pyval, 'w) comp" where
  "verbosity_operation args options w =
     (if options ''lock_backend'' \<noteq> None \<or> options ''lock_timeout'' \<noteq> None
      then Some (Inl (TypeError ''unexpected keyword argument''), w)
      else case options ''verbosity'' of
             None \<Rightarrow> Some (Inr PyNone, w)
           | Some v \<Rightarrow> Some (Inr v, w))"

subsection \<open>Two further backend modules\<close>







subsection \<open>Protected operations during which the lock is released\<close>

text \<open>
  The docstring of \<open>release\<close> lets any thread release the lock. These are a protected
  operation that returns 2 and one that raises; while each runs, another thread
  releases the lock.
\<close>

definition unlocked_operation :: "pyval list \<Rightarrow> kwargs \<Rightarrow> (pyval, doc_world) comp" where
  "unlocked_operation args options w =
     Some (Inr (PyInt 2), w\<lparr>locked := False, migrations_run := migrations_run w + 1\<rparr>)"

definition unlocked_failing_operation :: "pyval list \<Rightarrow> kwargs \<Rightarrow> (pyval, doc_world) comp" where
  "unlocked_failing_operation args options w =
     Some (Inl (OtherError ''migration failed''), w\<lparr>locked := False\<rparr>)"

section \<open>The backend registry: resolution\<close>

lemma issubclass_non_class:
  "\<not> is_class v \<Longrightarrow>
   issubclass v AbstractBaseLock = Inl (TypeError ''issubclass() arg 1 must be a class'')"
  by (cases v) (simp_all add: AbstractBaseLock_def)

lemma issubclass_class:
  "is_class v \<Longrightarrow> \<exists>b. issubclass v AbstractBaseLock = Inr b"
  by (cases v) (simp_all add: AbstractBaseLock_def)

lemma scan_members_step:
  "scan_members name (v # vals) = (if qualifies v then Inr v else scan_members name vals)"
proof (cases "is_class v")
  case True
  then obtain b where "issubclass v AbstractBaseLock = Inr b"
    using issubclass_class by blast
  then show ?thesis by (auto simp: qualifies_def)
next
  case False
  then show ?thesis by (simp add: issubclass_non_class qualifies_def)
qed


lemma qualifies_is_class: "qualifies v \<Longrightarrow> is_class v"
  by (cases v) (simp_all add: qualifies_def AbstractBaseLock_def)

lemma scan_members_filter:
  "scan_members name (filter is_class vals) = scan_members name vals"
  by (induction vals)
     (auto simp: scan_members_step qualifies_is_class simp del: scan_members.simps(2))




text \<open>
  Claim C10. In a module whose namespace holds values that are not classes, the
  subclass test raises \<open>TypeError\<close> on each of them, and \<open>get_backend\<close> gives the result
  of the loop over the classes of the namespace alone: the values that are not classes
  are passed over and change nothing.
\<close>

theorem non_class_members_skipped:
  assumes "import_module (''locked_migrations.backends.'' @ name) = Inr namespace"
  shows "(\<forall>v \<in> snd ` set namespace. \<not> is_class v \<longrightarrow>
            (\<exists>m. issubclass v AbstractBaseLock = Inl (TypeError m))) \<and>
         get_backend import_module name
           = scan_members name (filter is_class (map snd namespace))"
  using assms by (simp add: get_backend_def scan_members_filter issubclass_non_class)

theorem non_class_members_skipped_witness:
  "repo_import (''locked_migrations.backends.'' @ ''file'') = Inr file_module \<and>
   issubclass (PyOther ''logging.Logger'') AbstractBaseLock
     = Inl (TypeError ''issubclass() arg 1 must be a class'') \<and>
   filter is_class (map snd file_module) =
     [PyClass ''filelock.FileLock''
        [''filelock.BaseFileLock'', ''contextlib.ContextDecorator'', ''builtins.object''] [],
      AbstractBaseLock, FileLock_class] \<and>
   get_backend repo_import ''file'' = Inr FileLock_class"
  using non_class_members_skipped [of repo_import "''file''" file_module]
  by (simp add: repo_import_def file_module_def AbstractBaseLock_def FileLock_class_def)

section \<open>The wrapper: acquire, run, release\<close>

text \<open>What \<open>handle\<close> does once \<open>acquire\<close> has returned, whatever value it returned.\<close>

lemma handle_after_acquire:
  assumes "options ''lock_backend'' = Some Lock"
      and "options ''lock_timeout'' = Some timeout"
      and "new_lock api Lock w = Some (Inr lock, w1)"
      and "acquire api lock timeout w1 = Some (Inr v, w2)"
  shows "handle api base_handle args options w =
     (case base_handle args (options(''lock_backend'' := None, ''lock_timeout'' := None)) w2 of
        None \<Rightarrow> None
      | Some (r, w3) \<Rightarrow>
     (case release api lock w3 of
        None \<Rightarrow> None
      | Some (Inl e, w4) \<Rightarrow>
          Some (Inl e, w4, [CallLock, CallAcquire timeout, CallBaseHandle, CallRelease])
      | Some (Inr _, w4) \<Rightarrow>
          Some (r, w4, [CallLock, CallAcquire timeout, CallBaseHandle, CallRelease])))"
  using assms by (simp add: handle_def pop_def)

text \<open>
  When \<open>acquire\<close> raises, the exception leaves \<open>handle\<close> as it is; the protected
  operation is not run and \<open>release\<close> is not called.
\<close>

lemma handle_acquire_raises:
  assumes "options ''lock_backend'' = Some Lock"
      and "options ''lock_timeout'' = Some timeout"
      and "new_lock api Lock w = Some (Inr lock, w1)"
      and "acquire api lock timeout w1 = Some (Inl e, w2)"
  shows "handle api base_handle args options w
           = Some (Inl e, w2, [CallLock, CallAcquire timeout])"
  using assms by (simp add: handle_def pop_def)

lemmas file_eval =
  file_api_def FileLock_acquire_def BaseFileLock_acquire_def FileLock_init_def
  BaseFileLock_init_def FileLock_release_def BaseFileLock_release_def Let_def

text \<open>
  Claim C1. In every invocation of \<open>handle\<close> in which \<open>acquire\<close> has returned, and
  whose protected operation comes to an end, by returning a value or by raising (\<open>r\<close>
  is either), \<open>release\<close> is called exactly once, as the last call, on the world the
  protected operation left: the invocation ends in the world \<open>release\<close> produced.
\<close>

theorem release_exactly_once:
  assumes "options ''lock_backend'' = Some Lock"
      and "options ''lock_timeout'' = Some timeout"
      and "new_lock api Lock w = Some (Inr lock, w1)"
      and "acquire api lock timeout w1 = Some (Inr v, w2)"
      and "base_handle args (options(''lock_backend'' := None, ''lock_timeout'' := None)) w2
             = Some (r, w3)"
      and "release api lock w3 = Some (q, w4)"
  shows "\<exists>res calls.
           handle api base_handle args options w = Some (res, w4, calls) \<and>
           count_list calls CallRelease = 1 \<and>
           calls = [CallLock, CallAcquire timeout, CallBaseHandle, CallRelease]"
  using assms by (cases q) (simp_all add: handle_after_acquire)

text \<open>
  The file backend, with a protected operation that raises: the lock that \<open>acquire\<close>
  took is free again when the error leaves \<open>handle\<close>.
\<close>

theorem release_exactly_once_witness:
  "[''lock_backend'' \<mapsto> FileLock_class, ''lock_timeout'' \<mapsto> PyInt 60, ''verbosity'' \<mapsto> PyInt 1]
     ''lock_backend'' = Some FileLock_class \<and>
   [''lock_backend'' \<mapsto> FileLock_class, ''lock_timeout'' \<mapsto> PyInt 60, ''verbosity'' \<mapsto> PyInt 1]
     ''lock_timeout'' = Some (PyInt 60) \<and>
   new_lock file_api FileLock_class \<lparr>settings = Map.empty, locks = [], clock = [(True, 0)]\<rparr>
     = Some (Inr 0,
         \<lparr>settings = Map.empty, locks = [FileLock_init Map.empty], clock = [(True, 0)]\<rparr>) \<and>
   acquire file_api 0 (PyInt 60)
       \<lparr>settings = Map.empty, locks = [FileLock_init Map.empty], clock = [(True, 0)]\<rparr>
     = Some (Inr (PyBool True),
         \<lparr>settings = Map.empty,
          locks = [(FileLock_init Map.empty)\<lparr>lock_counter := 1, is_locked := True\<rparr>],
          clock = []\<rparr>) \<and>
   release file_api 0
       \<lparr>settings = Map.empty,
        locks = [(FileLock_init Map.empty)\<lparr>lock_counter := 1, is_locked := True\<rparr>],
        clock = []\<rparr>
     = Some (Inr PyNone, \<lparr>settings = Map.empty, locks = [FileLock_init Map.empty], clock = []\<rparr>) \<and>
   handle file_api failing_operation []
       [''lock_backend'' \<mapsto> FileLock_class, ''lock_timeout'' \<mapsto> PyInt 60, ''verbosity'' \<mapsto> PyInt 1]
       \<lparr>settings = Map.empty, locks = [], clock = [(True, 0)]\<rparr>
     = Some (Inl (OtherError ''migration failed''),
         \<lparr>settings = Map.empty, locks = [FileLock_init Map.empty], clock = []\<rparr>,
         [CallLock, CallAcquire (PyInt 60), CallBaseHandle, CallRelease])"
proof -
  let ?options = "[''lock_backend'' \<mapsto> FileLock_class, ''lock_timeout'' \<mapsto> PyInt 60,
    ''verbosity'' \<mapsto> PyInt 1]"
  let ?L0 = "FileLock_init Map.empty"
  let ?L1 = "?L0\<lparr>lock_counter := 1, is_locked := True\<rparr>"
  let ?w = "\<lparr>settings = Map.empty, locks = [], clock = [(True, 0)]\<rparr>"
  let ?w1 = "\<lparr>settings = Map.empty, locks = [?L0], clock = [(True, 0)]\<rparr>"
  let ?w2 = "\<lparr>settings = Map.empty, locks = [?L1], clock = []\<rparr>"
  let ?w4 = "\<lparr>settings = Map.empty, locks = [?L0], clock = []\<rparr>"
  let ?base = "failing_operation :: pyval list \<Rightarrow> kwargs \<Rightarrow> (pyval, file_world) comp"
  have h1: "?options ''lock_backend'' = Some FileLock_class" by simp
  have h2: "?options ''lock_timeout'' = Some (PyInt 60)" by simp
  have h3: "new_lock file_api FileLock_class ?w = Some (Inr 0, ?w1)"
    by (simp add: file_api_def)
  have h4: "acquire file_api 0 (PyInt 60) ?w1 = Some (Inr (PyBool True), ?w2)"
    by (simp add: file_eval)
  have h5: "?base [] (?options(''lock_backend'' := None, ''lock_timeout'' := None)) ?w2
    = Some (Inl (OtherError ''migration failed''), ?w2)"
    by (simp add: failing_operation_def)
  have h6: "release file_api 0 ?w2 = Some (Inr PyNone, ?w4)"
    by (simp add: file_eval)
  from release_exactly_once [where base_handle = ?base, OF h1 h2 h3 h4 h5 h6]
  obtain res calls where
    r: "handle file_api ?base [] ?options ?w = Some (res, ?w4, calls)"
      "calls = [CallLock, CallAcquire (PyInt 60), CallBaseHandle, CallRelease]"
    by blast
  have "res = Inl (OtherError ''migration failed'')"
    using r(1) h1 h2 h3 h4 h5 h6
    by (simp add: handle_after_acquire [OF h1 h2 h3 h4] failing_operation_def)
  with r h1 h2 h3 h4 h6 show ?thesis by simp
qed

text \<open>
  Claim C2, at a backend that does what the docstrings of \<open>AbstractBaseLock\<close> say. The
  lock is held by another party and the timeout is one second: \<open>acquire\<close> returns
  \<open>False\<close>. \<open>handle\<close> does not look at the value: the protected operation runs
  (\<open>migrations_run\<close> becomes 1), \<open>release\<close> is called and unlocks the lock of the other
  party, and the invocation returns normally.
\<close>

theorem handle_ignores_False:
  "acquire doc_api () (PyInt 1) \<lparr>locked = True, migrations_run = 0\<rparr>
     = Some (Inr (PyBool False), \<lparr>locked = True, migrations_run = 0\<rparr>) \<and>
   handle doc_api run_migrations []
       [''lock_backend'' \<mapsto> PyClass ''DocLock'' [''locked_migrations.backends.AbstractBaseLock''] [],
        ''lock_timeout'' \<mapsto> PyInt 1]
       \<lparr>locked = True, migrations_run = 0\<rparr>
     = Some (Inr PyNone, \<lparr>locked = False, migrations_run = 1\<rparr>,
         [CallLock, CallAcquire (PyInt 1), CallBaseHandle, CallRelease])"
  by (simp add: handle_def pop_def doc_api_def run_migrations_def)

text \<open>
  When \<open>release\<close> raises, its exception is the outcome of \<open>handle\<close>, whatever the
  protected operation returned or raised.
\<close>

lemma handle_release_raises:
  assumes "options ''lock_backend'' = Some Lock"
      and "options ''lock_timeout'' = Some timeout"
      and "new_lock api Lock w = Some (Inr lock, w1)"
      and "acquire api lock timeout w1 = Some (Inr v, w2)"
      and "base_handle args (options(''lock_backend'' := None, ''lock_timeout'' := None)) w2
             = Some (r, w3)"
      and "release api lock w3 = Some (Inl e, w4)"
  shows "map_option fst (handle api base_handle args options w) = Some (Inl e)"
  using assms by (simp add: handle_after_acquire)

text \<open>
  Claim C8 as first stated holds for every invocation that acquires the lock. With the
  backend that follows the interface's docstrings, \<open>acquire\<close> takes the free lock; the
  protected operation returns 2, or raises \<open>migration failed\<close>, and in the meantime the
  lock is released by another thread; \<open>release\<close> then raises \<open>RuntimeError\<close>, and that
  is what \<open>handle\<close> raises: the protected operation's value, and its error, are lost.
\<close>

theorem release_error_replaces_outcome:
  "acquire doc_api () (PyInt 60) \<lparr>locked = False, migrations_run = 0\<rparr>
     = Some (Inr (PyBool True), \<lparr>locked = True, migrations_run = 0\<rparr>) \<and>
   unlocked_operation []
       ([''lock_backend'' \<mapsto> PyClass ''DocLock'' [''locked_migrations.backends.AbstractBaseLock''] [],
         ''lock_timeout'' \<mapsto> PyInt 60](''lock_backend'' := None, ''lock_timeout'' := None))
       \<lparr>locked = True, migrations_run = 0\<rparr>
     = Some (Inr (PyInt 2), \<lparr>locked = False, migrations_run = 1\<rparr>) \<and>
   handle doc_api unlocked_operation []
       [''lock_backend'' \<mapsto> PyClass ''DocLock'' [''locked_migrations.backends.AbstractBaseLock''] [],
        ''lock_timeout'' \<mapsto> PyInt 60]
       \<lparr>locked = False, migrations_run = 0\<rparr>
     = Some (Inl (RuntimeError ''release unlocked lock''),
         \<lparr>locked = False, migrations_run = 1\<rparr>,
         [CallLock, CallAcquire (PyInt 60), CallBaseHandle, CallRelease]) \<and>
   unlocked_failing_operation []
       ([''lock_backend'' \<mapsto> PyClass ''DocLock'' [''locked_migrations.backends.AbstractBaseLock''] [],
         ''lock_timeout'' \<mapsto> PyInt 60](''lock_backend'' := None, ''lock_timeout'' := None))
       \<lparr>locked = True, migrations_run = 0\<rparr>
     = Some (Inl (OtherError ''migration failed''), \<lparr>locked = False, migrations_run = 0\<rparr>) \<and>
   handle doc_api unlocked_failing_operation []
       [''lock_backend'' \<mapsto> PyClass ''DocLock'' [''locked_migrations.backends.AbstractBaseLock''] [],
        ''lock_timeout'' \<mapsto> PyInt 60]
       \<lparr>locked = False, migrations_run = 0\<rparr>
     = Some (Inl (RuntimeError ''release unlocked lock''),
         \<lparr>locked = False, migrations_run = 0\<rparr>,
         [CallLock, CallAcquire (PyInt 60), CallBaseHandle, CallRelease])"
  by (simp add: handle_def pop_def doc_api_def unlocked_operation_def
      unlocked_failing_operation_def)

text \<open>
  Claim C8, amended. In every invocation of \<open>handle\<close> that has acquired the lock and
  whose \<open>release\<close> returns normally, the outcome of \<open>handle\<close> is the outcome \<open>r\<close> of the
  protected operation, a value or an error, as it is; the protected operation is called
  with the arguments unchanged and with the options from which \<open>lock_backend\<close> and
  \<open>lock_timeout\<close>, and nothing else, have been removed.
\<close>

theorem result_unchanged:
  assumes "options ''lock_backend'' = Some Lock"
      and "options ''lock_timeout'' = Some timeout"
      and "new_lock api Lock w = Some (Inr lock, w1)"
      and "acquire api lock timeout w1 = Some (Inr v, w2)"
      and "base_handle args (options(''lock_backend'' := None, ''lock_timeout'' := None)) w2
             = Some (r, w3)"
      and "release api lock w3 = Some (Inr q, w4)"
  shows "map_option fst (handle api base_handle args options w) = Some r"
  using assms by (simp add: handle_after_acquire)

text \<open>
  The file backend, with a protected operation that returns the \<open>verbosity\<close> it was
  given and raises if it is given a lock option.
\<close>

theorem result_unchanged_witness:
  "[''lock_backend'' \<mapsto> FileLock_class, ''lock_timeout'' \<mapsto> PyInt 60, ''verbosity'' \<mapsto> PyInt 2]
     ''lock_backend'' = Some FileLock_class \<and>
   [''lock_backend'' \<mapsto> FileLock_class, ''lock_timeout'' \<mapsto> PyInt 60, ''verbosity'' \<mapsto> PyInt 2]
     ''lock_timeout'' = Some (PyInt 60) \<and>
   new_lock file_api FileLock_class \<lparr>settings = Map.empty, locks = [], clock = [(True, 0)]\<rparr>
     = Some (Inr 0,
         \<lparr>settings = Map.empty, locks = [FileLock_init Map.empty], clock = [(True, 0)]\<rparr>) \<and>
   acquire file_api 0 (PyInt 60)
       \<lparr>settings = Map.empty, locks = [FileLock_init Map.empty], clock = [(True, 0)]\<rparr>
     = Some (Inr (PyBool True),
         \<lparr>settings = Map.empty,
          locks = [(FileLock_init Map.empty)\<lparr>lock_counter := 1, is_locked := True\<rparr>],
          clock = []\<rparr>) \<and>
   verbosity_operation [PyStr ''app'']
       ([''lock_backend'' \<mapsto> FileLock_class, ''lock_timeout'' \<mapsto> PyInt 60,
         ''verbosity'' \<mapsto> PyInt 2](''lock_backend'' := None, ''lock_timeout'' := None))
       \<lparr>settings = Map.empty,
        locks = [(FileLock_init Map.empty)\<lparr>lock_counter := 1, is_locked := True\<rparr>],
        clock = []\<rparr>
     = Some (Inr (PyInt 2),
         \<lparr>settings = Map.empty,
          locks = [(FileLock_init Map.empty)\<lparr>lock_counter := 1, is_locked := True\<rparr>],
          clock = []\<rparr>) \<and>
   release file_api 0
       \<lparr>settings = Map.empty,
        locks = [(FileLock_init Map.empty)\<lparr>lock_counter := 1, is_locked := True\<rparr>],
        clock = []\<rparr>
     = Some (Inr PyNone, \<lparr>settings = Map.empty, locks = [FileLock_init Map.empty], clock = []\<rparr>) \<and>
   map_option fst
     (handle file_api verbosity_operation [PyStr ''app'']
       [''lock_backend'' \<mapsto> FileLock_class, ''lock_timeout'' \<mapsto> PyInt 60, ''verbosity'' \<mapsto> PyInt 2]
       \<lparr>settings = Map.empty, locks = [], clock = [(True, 0)]\<rparr>)
     = Some (Inr (PyInt 2))"
proof -
  let ?options = "[''lock_backend'' \<mapsto> FileLock_class, ''lock_timeout'' \<mapsto> PyInt 60,
    ''verbosity'' \<mapsto> PyInt 2]"
  let ?L0 = "FileLock_init Map.empty"
  let ?L1 = "?L0\<lparr>lock_counter := 1, is_locked := True\<rparr>"
  let ?w = "\<lparr>settings = Map.empty, locks = [], clock = [(True, 0)]\<rparr>"
  let ?w1 = "\<lparr>settings = Map.empty, locks = [?L0], clock = [(True, 0)]\<rparr>"
  let ?w2 = "\<lparr>settings = Map.empty, locks = [?L1], clock = []\<rparr>"
  let ?w4 = "\<lparr>settings = Map.empty, locks = [?L0], clock = []\<rparr>"
  let ?base = "verbosity_operation :: pyval list \<Rightarrow> kwargs \<Rightarrow> (pyval, file_world) comp"
  have h1: "?options ''lock_backend'' = Some FileLock_class" by simp
  have h2: "?options ''lock_timeout'' = Some (PyInt 60)" by simp
  have h3: "new_lock file_api FileLock_class ?w = Some (Inr 0, ?w1)"
    by (simp add: file_api_def)
  have h4: "acquire file_api 0 (PyInt 60) ?w1 = Some (Inr (PyBool True), ?w2)"
    by (simp add: file_eval)
  have h5: "?base [PyStr ''app''] (?options(''lock_backend'' := None, ''lock_timeout'' := None)) ?w2
    = Some (Inr (PyInt 2), ?w2)"
    by (simp add: verbosity_operation_def)
  have h6: "release file_api 0 ?w2 = Some (Inr PyNone, ?w4)"
    by (simp add: file_eval)
  note result_unchanged [where base_handle = ?base, OF h1 h2 h3 h4 h5 h6]
  with h1 h2 h3 h4 h5 h6 show ?thesis by simp
qed

section \<open>The wrapper: when the backend is resolved\<close>

text \<open>
  Claim C9. The backend is resolved while the arguments are set up and parsed, before
  \<open>handle\<close> is entered. The default is computed by \<open>get_backend('file')\<close> when the
  parser is built: if that fails, \<open>add_arguments\<close> fails and so does the invocation,
  whatever backend the command line selects; if it succeeds, the default held by the
  parser is the class that was found. The action of \<open>--lock-backend\<close> calls
  \<open>get_backend\<close> on the name given: if that fails, the invocation fails with that
  error. In both failures no call has been made (no lock built, the protected operation
  not started) and the world is as it was.
\<close>

theorem backend_resolved_while_parsing:
  "(super_add Map.empty = Inr base_parser \<and> get_backend import_module ''file'' = Inl e \<longrightarrow>
      add_arguments import_module super_add Map.empty = Inl e \<and>
      run_command import_module api base_handle super_add argv args w = Some (Inl e, w, [])) \<and>
   (add_arguments import_module super_add Map.empty = Inr defaults \<longrightarrow>
      (\<exists>c. get_backend import_module ''file'' = Inr c \<and> defaults ''lock_backend'' = Some c)) \<and>
   (add_arguments import_module super_add Map.empty = Inr defaults \<and>
    cli_lock_backend argv = Some name \<and> get_backend import_module name = Inl e' \<longrightarrow>
      GetBackend_call import_module defaults ''lock_backend'' name = Inl e' \<and>
      run_command import_module api base_handle super_add argv args w = Some (Inl e', w, [])) \<and>
   (add_arguments import_module super_add Map.empty = Inr defaults \<and>
    cli_lock_backend argv = Some name \<and> get_backend import_module name = Inr c' \<longrightarrow>
      GetBackend_call import_module defaults ''lock_backend'' name
        = Inr (defaults(''lock_backend'' \<mapsto> c')))"
  by (auto simp: add_arguments_def run_command_def GetBackend_call_def
      split: sum.splits option.splits)

text \<open>
  With \<open>--lock-backend redis\<close>: in an interpreter where no backend module can be
  imported the invocation fails on the \<open>file\<close> module; in one that has the \<open>file\<close>
  module alone, it fails on \<open>redis\<close>.
\<close>

theorem backend_resolved_while_parsing_witness:
  "Inr Map.empty = (Inr Map.empty :: exn + kwargs) \<and>
   get_backend (\<lambda>m. Inl (ModuleNotFoundError m)) ''file''
     = Inl (ModuleNotFoundError ''locked_migrations.backends.file'') \<and>
   run_command (\<lambda>m. Inl (ModuleNotFoundError m)) file_api failing_operation Inr
       \<lparr>cli_lock_backend = Some ''redis'', cli_lock_timeout = None\<rparr> []
       \<lparr>settings = Map.empty, locks = [], clock = []\<rparr>
     = Some (Inl (ModuleNotFoundError ''locked_migrations.backends.file''),
         \<lparr>settings = Map.empty, locks = [], clock = []\<rparr>, []) \<and>
   add_arguments repo_import Inr Map.empty
     = Inr [''lock_backend'' \<mapsto> FileLock_class, ''lock_timeout'' \<mapsto> PyInt 60] \<and>
   cli_lock_backend \<lparr>cli_lock_backend = Some ''redis'', cli_lock_timeout = None\<rparr>
     = Some ''redis'' \<and>
   get_backend repo_import ''redis''
     = Inl (ModuleNotFoundError ''locked_migrations.backends.redis'') \<and>
   run_command repo_import file_api failing_operation Inr
       \<lparr>cli_lock_backend = Some ''redis'', cli_lock_timeout = None\<rparr> []
       \<lparr>settings = Map.empty, locks = [], clock = []\<rparr>
     = Some (Inl (ModuleNotFoundError ''locked_migrations.backends.redis''),
         \<lparr>settings = Map.empty, locks = [], clock = []\<rparr>, [])"
proof -
  let ?none = "\<lambda>m. Inl (ModuleNotFoundError m) :: exn + (string \<times> pyval) list"
  let ?argv = "\<lparr>cli_lock_backend = Some ''redis'', cli_lock_timeout = None\<rparr>"
  let ?w = "\<lparr>settings = Map.empty, locks = [], clock = []\<rparr>"
  let ?op = "failing_operation :: pyval list \<Rightarrow> kwargs \<Rightarrow> (pyval, file_world) comp"
  have a1: "Inr Map.empty = (Inr Map.empty :: exn + kwargs)" by simp
  have a2: "get_backend ?none ''file''
    = Inl (ModuleNotFoundError ''locked_migrations.backends.file'')"
    by (simp add: get_backend_def)
  have b1: "add_arguments repo_import Inr Map.empty
    = Inr [''lock_backend'' \<mapsto> FileLock_class, ''lock_timeout'' \<mapsto> PyInt 60]"
    by (simp add: add_arguments_def get_backend_def repo_import_def file_module_def
        AbstractBaseLock_def FileLock_class_def)
  have b2: "cli_lock_backend ?argv = Some ''redis''" by simp
  have b3: "get_backend repo_import ''redis''
    = Inl (ModuleNotFoundError ''locked_migrations.backends.redis'')"
    by (simp add: get_backend_def repo_import_def)
  note file_missing = backend_resolved_while_parsing
    [where import_module = ?none and super_add = Inr and base_parser = Map.empty
       and e = "ModuleNotFoundError ''locked_migrations.backends.file''"
       and api = file_api and base_handle = ?op and argv = ?argv and args = "[]" and w = ?w,
     THEN conjunct1, rule_format, OF conjI, OF a1 a2, THEN conjunct2]
  note redis_missing = backend_resolved_while_parsing
    [where import_module = repo_import and super_add = Inr
       and defaults = "[''lock_backend'' \<mapsto> FileLock_class, ''lock_timeout'' \<mapsto> PyInt 60]"
       and name = "''redis''"
       and e' = "ModuleNotFoundError ''locked_migrations.backends.redis''"
       and api = file_api and base_handle = ?op and argv = ?argv and args = "[]" and w = ?w,
     THEN conjunct2, THEN conjunct2, THEN conjunct1, rule_format, OF conjI, OF b1 conjI,
     OF b2 b3, THEN conjunct2]
  from a1 a2 b1 b2 b3 file_missing redis_missing show ?thesis by blast
qed

section \<open>The file backend: acquire, release, scope\<close>

lemma wait_for_lock_result:
  "wait_for_lock blocking timeout obs L = Some (Inr u, L', obs') \<Longrightarrow> is_locked L'"
  by (induction blocking timeout obs L rule: wait_for_lock.induct)
     (auto split: if_splits sum.splits bool.splits)

text \<open>
  Whenever \<open>FileLock.acquire\<close> returns a value, the value is \<open>True\<close> and the lock is
  held by the caller: it has no path that returns \<open>False\<close>.
\<close>

lemma FileLock_acquire_returns_True:
  assumes "FileLock_acquire blocking timeout obs L = Some (Inr b, L', obs')"
  shows "b \<and> is_locked L'"
  using assms wait_for_lock_result
  by (auto simp: FileLock_acquire_def BaseFileLock_acquire_def Let_def
      split: option.splits sum.splits prod.splits)

text \<open>
  Claim C4, at a blocking \<open>acquire\<close> with a timeout of one second on a lock that
  another party holds throughout (three rounds of the polling loop, the last after
  1.05 seconds): the call raises \<open>Timeout\<close>; it does not return \<open>False\<close>. The lock
  object is left as it was.
\<close>

theorem FileLock_acquire_raises_Timeout:
  "FileLock_acquire True (PyInt 1) [(False, 0), (False, 1 / 2), (False, 21 / 20)]
       (FileLock_init Map.empty)
     = Some (Inl (Timeout ''migrations.lock''), FileLock_init Map.empty, [])"
  by (simp add: FileLock_acquire_def BaseFileLock_acquire_def FileLock_init_def
      BaseFileLock_init_def timed_out_def Let_def)

text \<open>
  Claim C5, at a lock that is not held: \<open>release\<close> on a lock that was never acquired
  returns normally and changes nothing; and after \<open>acquire\<close> and \<open>release\<close>, a second
  \<open>release\<close> returns normally as well. No error is raised.
\<close>

theorem FileLock_release_unlocked_silent:
  "FileLock_release (FileLock_init s) = (Inr (), FileLock_init s) \<and>
   FileLock_acquire True (PyInt (- 1)) [(True, 0)] (FileLock_init s)
     = Some (Inr True, (FileLock_init s)\<lparr>lock_counter := 1, is_locked := True\<rparr>, []) \<and>
   FileLock_release ((FileLock_init s)\<lparr>lock_counter := 1, is_locked := True\<rparr>)
     = (Inr (), FileLock_init s) \<and>
   FileLock_release
       (snd (FileLock_release ((FileLock_init s)\<lparr>lock_counter := 1, is_locked := True\<rparr>)))
     = (Inr (), FileLock_init s)"
  by (simp add: file_eval)

lemma wait_for_lock_number:
  "as_number t1 = as_number t2 \<Longrightarrow>
   wait_for_lock blocking t1 obs L = wait_for_lock blocking t2 obs L"
  by (induction obs) (auto simp: timed_out_def split: option.splits sum.splits bool.splits)

lemma wait_held:
  "is_locked L \<Longrightarrow> wait_for_lock blocking timeout obs L = Some (Inr (), L, obs)"
  by (cases obs) auto

text \<open>
  With a negative timeout a blocking wait never times out: it ends at the first round
  in which the lock is granted, and is still waiting when the schedule holds none.
\<close>

lemma wait_unbounded:
  assumes "as_number timeout = Some t" and "t < 0" and "\<not> is_locked L"
  shows "wait_for_lock True timeout obs L =
     (case dropWhile (\<lambda>ob. \<not> fst ob) obs of
        [] \<Rightarrow> None
      | ob # rest \<Rightarrow> Some (Inr (), L\<lparr>is_locked := True\<rparr>, rest))"
  using assms
  by (induction obs) (auto simp: timed_out_def)

text \<open>
  The defaults given at construction are never changed: every lock that comes from
  \<open>FileLock.__init__\<close> is blocking with the default timeout \<open>-1\<close>, before and after any
  call.
\<close>

lemma FileLock_init_ctx:
  "ctx_blocking (FileLock_init s) \<and> ctx_timeout (FileLock_init s) = - 1"
  by (simp add: FileLock_init_def BaseFileLock_init_def)

lemma wait_for_lock_ctx:
  "wait_for_lock blocking timeout obs L = Some (r, L', obs') \<Longrightarrow>
   ctx_blocking L' = ctx_blocking L \<and> ctx_timeout L' = ctx_timeout L"
  by (induction blocking timeout obs L rule: wait_for_lock.induct)
     (auto split: if_splits sum.splits bool.splits)

lemma FileLock_acquire_ctx:
  assumes "FileLock_acquire blocking timeout obs L = Some (r, L', obs')"
  shows "ctx_blocking L' = ctx_blocking L \<and> ctx_timeout L' = ctx_timeout L"
  using assms wait_for_lock_ctx
  by (fastforce simp: FileLock_acquire_def BaseFileLock_acquire_def Let_def
      split: option.splits sum.splits prod.splits)

lemma BaseFileLock_release_ctx:
  "ctx_blocking (BaseFileLock_release L) = ctx_blocking L \<and>
   ctx_timeout (BaseFileLock_release L) = ctx_timeout L"
  by (simp add: BaseFileLock_release_def Let_def)

text \<open>
  Claim C7. For a lock as \<open>FileLock.__init__\<close> builds it (blocking, default timeout
  \<open>-1\<close>): entering the scope is \<open>acquire\<close> with \<open>blocking=True\<close> and the timeout \<open>-1\<close>,
  no timeout of the caller's being involved. On a lock this object does not hold, it
  waits through every round in which the lock is not granted, however much time has
  elapsed, and returns \<open>True\<close> with the lock held at the first round in which it is
  granted; on a lock this object holds it returns \<open>True\<close> at once. Leaving the scope is
  \<open>release\<close>, whatever exception is or is not leaving the block, and it frees a lock
  that was acquired once.
\<close>

theorem FileLock_scope:
  assumes "ctx_blocking L" and "ctx_timeout L = - 1"
  shows "FileLock_enter obs L = FileLock_acquire True (PyInt (- 1)) obs L \<and>
         (\<not> is_locked L \<longrightarrow>
            FileLock_enter obs L =
              (case dropWhile (\<lambda>ob. \<not> fst ob) obs of
                 [] \<Rightarrow> None
               | ob # rest \<Rightarrow>
                   Some (Inr True, L\<lparr>lock_counter := lock_counter L + 1, is_locked := True\<rparr>,
                     rest))) \<and>
         (is_locked L \<longrightarrow>
            FileLock_enter obs L = Some (Inr True, L\<lparr>lock_counter := lock_counter L + 1\<rparr>, obs)) \<and>
         FileLock_exit exc_type val traceback L' = FileLock_release L' \<and>
         (is_locked L' \<and> lock_counter L' = 1 \<longrightarrow>
            \<not> is_locked (snd (FileLock_exit exc_type val traceback L')))"
proof -
  let ?L1 = "L\<lparr>lock_counter := lock_counter L + 1\<rparr>"
  have same: "wait_for_lock True (PyFloat (- 1)) obs ?L1 = wait_for_lock True (PyInt (- 1)) obs ?L1"
    by (rule wait_for_lock_number) simp
  have eq: "FileLock_enter obs L = FileLock_acquire True (PyInt (- 1)) obs L"
    using assms
    by (simp add: FileLock_enter_def FileLock_acquire_def BaseFileLock_acquire_def Let_def same)
  have free: "FileLock_enter obs L =
     (case dropWhile (\<lambda>ob. \<not> fst ob) obs of
        [] \<Rightarrow> None
      | ob # rest \<Rightarrow>
          Some (Inr True, L\<lparr>lock_counter := lock_counter L + 1, is_locked := True\<rparr>, rest))"
    if n: "\<not> is_locked L"
  proof -
    from n have n1: "\<not> is_locked ?L1" by simp
    have a: "wait_for_lock True (PyFloat (- 1)) obs ?L1 =
       (case dropWhile (\<lambda>ob. \<not> fst ob) obs of
          [] \<Rightarrow> None
        | ob # rest \<Rightarrow> Some (Inr (), ?L1\<lparr>is_locked := True\<rparr>, rest))"
      by (rule wait_unbounded [OF _ _ n1, of _ "- 1"]) simp_all
    show ?thesis
      using assms
      by (cases "dropWhile (\<lambda>ob. \<not> fst ob) obs")
         (simp_all add: FileLock_enter_def BaseFileLock_acquire_def Let_def a
            del: dropWhile_eq_Nil_conv)
  qed
  have held: "FileLock_enter obs L = Some (Inr True, ?L1, obs)" if h: "is_locked L"
  proof -
    from h have "is_locked ?L1" by simp
    then have "wait_for_lock True (PyFloat (- 1)) obs ?L1 = Some (Inr (), ?L1, obs)"
      by (rule wait_held)
    with assms h show ?thesis
      by (simp add: FileLock_enter_def BaseFileLock_acquire_def Let_def)
  qed
  have x: "FileLock_exit exc_type val traceback L' = FileLock_release L'"
    by (simp add: FileLock_exit_def FileLock_release_def)
  have r: "is_locked L' \<and> lock_counter L' = 1 \<longrightarrow>
            \<not> is_locked (snd (FileLock_exit exc_type val traceback L'))"
    by (simp add: FileLock_exit_def BaseFileLock_release_def Let_def)
  from eq free held x r show ?thesis by blast
qed

text \<open>
  A fresh lock: entering waits two hours for the other party and then returns \<open>True\<close>;
  while the other party keeps the lock it is still waiting; leaving the scope with an
  exception on its way out frees the lock.
\<close>

theorem FileLock_scope_witness:
  "ctx_blocking (FileLock_init Map.empty) \<and> ctx_timeout (FileLock_init Map.empty) = - 1 \<and>
   \<not> is_locked (FileLock_init Map.empty) \<and>
   FileLock_enter [(False, 0), (False, 3600), (True, 7200)] (FileLock_init Map.empty)
     = Some (Inr True, (FileLock_init Map.empty)\<lparr>lock_counter := 1, is_locked := True\<rparr>, []) \<and>
   FileLock_enter [(False, 0), (False, 3600)] (FileLock_init Map.empty) = None \<and>
   is_locked ((FileLock_init Map.empty)\<lparr>lock_counter := 1, is_locked := True\<rparr>) \<and>
   lock_counter ((FileLock_init Map.empty)\<lparr>lock_counter := 1, is_locked := True\<rparr>) = 1 \<and>
   FileLock_exit (Some (OtherError ''migration failed'')) (Some (OtherError ''migration failed''))
       (Some ''traceback'') ((FileLock_init Map.empty)\<lparr>lock_counter := 1, is_locked := True\<rparr>)
     = (Inr (), FileLock_init Map.empty)"
proof -
  let ?L0 = "FileLock_init Map.empty"
  let ?L1 = "?L0\<lparr>lock_counter := 1, is_locked := True\<rparr>"
  let ?e = "Some (OtherError ''migration failed'')"
  have c1: "ctx_blocking ?L0" and c2: "ctx_timeout ?L0 = - 1" and c3: "\<not> is_locked ?L0"
    by (simp_all add: FileLock_init_def BaseFileLock_init_def)
  note granted = FileLock_scope [OF c1 c2, of "[(False, 0), (False, 3600), (True, 7200)]"
    ?e ?e "Some ''traceback''" ?L1]
  note waiting = FileLock_scope [OF c1 c2, of "[(False, 0), (False, 3600)]" None None None ?L0]
  have e1: "FileLock_enter [(False, 0), (False, 3600), (True, 7200)] ?L0 = Some (Inr True, ?L1, [])"
    using granted [THEN conjunct2, THEN conjunct1] c3
    by (simp add: FileLock_init_def BaseFileLock_init_def)
  have e2: "FileLock_enter [(False, 0), (False, 3600)] ?L0 = None"
    using waiting [THEN conjunct2, THEN conjunct1] c3 by simp
  have x: "FileLock_exit ?e ?e (Some ''traceback'') ?L1 = (Inr (), ?L0)"
    using granted [THEN conjunct2, THEN conjunct2, THEN conjunct2, THEN conjunct1]
    by (simp add: FileLock_init_def BaseFileLock_init_def FileLock_release_def
        BaseFileLock_release_def Let_def)
  have l: "is_locked ?L1" "lock_counter ?L1 = 1" by simp_all
  from c1 c2 c3 e1 e2 x l show ?thesis by simp
qed

end
